theory Spec2Isabelle
  imports Complex_Main
begin

section \<open>PRCoords: conversions between WGS-84, GCJ-02 and BD-09\<close>

text \<open>
  A shallow embedding of \<^verbatim>\<open>src/prcoords.py\<close>. Python's \<^verbatim>\<open>float\<close> is read as
  \<^typ>\<open>real\<close>: every arithmetic expression keeps the operators, the constants and the
  association of the source, and is evaluated without rounding. The functions of
  Python's \<^verbatim>\<open>math\<close> module are read as the real functions they approximate
  (\<^verbatim>\<open>math.sin\<close> as \<^term>\<open>sin\<close>, \<^verbatim>\<open>math.hypot\<close> as the Euclidean norm, and so on).
  Where a property depends on the rounding of binary64 addition itself, a second, exact
  model of that one operation is given in its own subsection below. Overflow to an
  infinity and \<^verbatim>\<open>nan\<close> are not modelled: the theorems are about computations whose
  values stay finite.

  \<^verbatim>\<open>warnings.warn\<close> is the only side effect of the module. Every conversion therefore
  returns its value together with the list of warnings it has emitted, in order.
\<close>

subsection \<open>Constants\<close>

definition GCJ_A :: real where
  "GCJ_A = 6378245"

definition GCJ_EE :: real where
  "GCJ_EE = 0.00669342162296594323"

definition PRC_EPS :: real where
  "PRC_EPS = 1 / 100000"

definition BD_DLAT :: real where
  "BD_DLAT = 0.0060"

definition BD_DLON :: real where
  "BD_DLON = 0.0065"

definition EARTH_R :: real where
  "EARTH_R = 6371000"

subsection \<open>The functions of Python's math module that the source calls\<close>

text \<open>
  \<^verbatim>\<open>math.radians(d)\<close> is \<open>d * (pi / 180)\<close>. \<^verbatim>\<open>math.atan2(y, x)\<close> is the angle of
  the point \<open>(x, y)\<close> in \<open>(-pi, pi]\<close>, and \<open>0\<close> at the origin (the reals have no
  signed zero).
\<close>

definition radians :: "real \<Rightarrow> real" where
  "radians d = d * (pi / 180)"

definition atan2 :: "real \<Rightarrow> real \<Rightarrow> real" where
  "atan2 y x =
     (if 0 < x then arctan (y / x)
      else if x < 0 \<and> 0 \<le> y then arctan (y / x) + pi
      else if x < 0 \<and> y < 0 then arctan (y / x) - pi
      else if 0 < y then pi / 2
      else if y < 0 then - (pi / 2)
      else 0)"

text \<open>
  \<^verbatim>\<open>math.sqrt\<close> and \<^verbatim>\<open>math.asin\<close> raise \<^verbatim>\<open>ValueError\<close> outside their domains.
\<close>

datatype py_error = ValueError

definition math_sqrt :: "real \<Rightarrow> py_error + real" where
  "math_sqrt v = (if v < 0 then Inl ValueError else Inr (sqrt v))"

definition math_asin :: "real \<Rightarrow> py_error + real" where
  "math_asin v = (if v < - 1 \<or> 1 < v then Inl ValueError else Inr (arcsin v))"

subsection \<open>The class Coords\<close>

datatype coords = Coords (lat: real) (lon: real)

instantiation coords :: "{plus, minus}"
begin

definition plus_coords :: "coords \<Rightarrow> coords \<Rightarrow> coords" where
  "plus_coords self other = Coords (lat self + lat other) (lon self + lon other)"

definition minus_coords :: "coords \<Rightarrow> coords \<Rightarrow> coords" where
  "minus_coords self other = Coords (lat self - lat other) (lon self - lon other)"

instance ..

end

text \<open>\<^verbatim>\<open>__abs__\<close>: \<^verbatim>\<open>math.hypot(*self)\<close>.\<close>

definition abs_coords :: "coords \<Rightarrow> real" where
  "abs_coords self = sqrt ((lat self)\<^sup>2 + (lon self)\<^sup>2)"

definition hav :: "real \<Rightarrow> real" where
  "hav theta = (sin (theta / 2))\<^sup>2"

text \<open>
  \<^verbatim>\<open>Coords.distance\<close>. The two library calls that can raise keep their guards, so the
  result is an error or a number.
\<close>

definition distance :: "coords \<Rightarrow> coords \<Rightarrow> py_error + real" where
  "distance self other =
     (let delta = self - other in
      case math_sqrt
             (hav (radians (lat delta))
              + cos (radians (lat self)) * cos (radians (lat other)) * hav (radians (lon delta))) of
        Inl e \<Rightarrow> Inl e
      | Inr s \<Rightarrow>
          (case math_asin s of
             Inl e \<Rightarrow> Inl e
           | Inr a \<Rightarrow> Inr (2 * EARTH_R * a)))"

subsection \<open>The region check and the warning\<close>

definition sanity_in_china_p :: "coords \<Rightarrow> bool" where
  "sanity_in_china_p c =
     (0.8293 \<le> lat c \<and> lat c \<le> 55.8271 \<and> 72.004 \<le> lon c \<and> lon c \<le> 137.8347)"

text \<open>
  The one warning of the module, \<^verbatim>\<open>"Non-Chinese coords found, returning as-is: %r"\<close>,
  carries the coordinate it was raised for.
\<close>

datatype warning = NonChinese coords

subsection \<open>WGS-84 to GCJ-02 and the single-step inverse\<close>

text \<open>
  The divisors of \<^verbatim>\<open>wgs_gcj\<close> are \<open>lat_deg_arclen\<close>, which is positive for every input,
  and \<open>lon_deg_arclen\<close>, which is positive whenever the cosine of the latitude is (lemmas
  \<open>lat_deg_arclen_pos\<close> and \<open>lon_deg_arclen_pos\<close> below); \<open>magic\<close> is positive too, so
  that \<^verbatim>\<open>math.pow(magic, 1.5)\<close> and \<^verbatim>\<open>math.sqrt(magic)\<close> are inside their domains.
  The real cosine vanishes at the latitudes \<open>90 + 180 * k\<close> only; no binary64 number is an
  odd multiple of \<open>pi / 2\<close>, so the cosine that Python computes is not zero there either
  and no division of \<^verbatim>\<open>wgs_gcj\<close> raises \<^verbatim>\<open>ZeroDivisionError\<close>. The division is
  therefore written as the total division of the reals.

  At those latitudes the model and the program agree in the formula and not in its value:
  the program divides \<open>dLon_m\<close> by a number of the order of \<^verbatim>\<open>1e-11\<close> and returns a
  longitude of the order of \<^verbatim>\<open>1e13\<close>, while the quotient by zero is \<open>0\<close> in HOL and
  the model returns the longitude unchanged (lemma \<open>lon_deg_arclen_pole\<close> below). The
  model has no infinite numbers either: on an argument that has overflowed to an infinity
  \<^verbatim>\<open>math.sin\<close> raises \<^verbatim>\<open>ValueError\<close>, which no function of the model does.
\<close>

definition wgs_gcj :: "coords \<Rightarrow> bool \<Rightarrow> coords \<times> warning list" where
  "wgs_gcj wgs check_china =
     (if check_china \<and> \<not> sanity_in_china_p wgs then (wgs, [NonChinese wgs])
      else
        let x = lon wgs - 105;
            y = lat wgs - 35;
            dLat_m =
              - 100 + 2 * x + 3 * y + 0.2 * y * y + 0.1 * x * y + 0.2 * sqrt \<bar>x\<bar>
              + (2 * sin (x * 6 * pi) + 2 * sin (x * 2 * pi) + 2 * sin (y * pi)
                 + 4 * sin (y / 3 * pi) + 16 * sin (y / 12 * pi) + 32 * sin (y / 30 * pi))
                * 20 / 3;
            dLon_m =
              300 + x + 2 * y + 0.1 * x * x + 0.1 * x * y + 0.1 * sqrt \<bar>x\<bar>
              + (2 * sin (x * 6 * pi) + 2 * sin (x * 2 * pi) + 2 * sin (x * pi)
                 + 4 * sin (x / 3 * pi) + 15 * sin (x / 12 * pi) + 30 * sin (x / 30 * pi))
                * 20 / 3;
            radLat = radians (lat wgs);
            magic = 1 - GCJ_EE * (sin radLat)\<^sup>2;
            lat_deg_arclen = radians ((GCJ_A * (1 - GCJ_EE)) * (magic powr 1.5));
            lon_deg_arclen = radians (GCJ_A * cos radLat / sqrt magic)
        in (Coords (lat wgs + dLat_m / lat_deg_arclen) (lon wgs + dLon_m / lon_deg_arclen), []))"

definition gcj_wgs :: "coords \<Rightarrow> bool \<Rightarrow> coords \<times> warning list" where
  "gcj_wgs gcj check_china =
     (let (g, ws) = wgs_gcj gcj check_china in (gcj - (g - gcj), ws))"

subsection \<open>GCJ-02 to BD-09 and back\<close>

text \<open>
  The second parameter \<^verbatim>\<open>_dummy\<close> of both functions is never read; it only gives them
  the calling convention of the other conversions.
\<close>

definition gcj_bd :: "coords \<Rightarrow> bool \<Rightarrow> coords \<times> warning list" where
  "gcj_bd gcj dummy =
     (let y = lat gcj;
          x = lon gcj;
          r = sqrt (x * x + y * y) + 0.00002 * sin (radians y * 3000);
          theta = atan2 y x + 0.000003 * cos (radians x * 3000)
      in (Coords (r * sin theta + BD_DLAT) (r * cos theta + BD_DLON), []))"

definition bd_gcj :: "coords \<Rightarrow> bool \<Rightarrow> coords \<times> warning list" where
  "bd_gcj bd dummy =
     (let x = lon bd - BD_DLON;
          y = lat bd - BD_DLAT;
          r = sqrt (x * x + y * y) - 0.00002 * sin (radians y * 3000);
          theta = atan2 y x - 0.000003 * cos (radians x * 3000)
      in (Coords (r * sin theta) (r * cos theta), []))"

subsection \<open>The composed conversions\<close>

text \<open>
  \<^verbatim>\<open>bd_wgs\<close> calls \<^verbatim>\<open>bd_gcj(bd)\<close> and \<^verbatim>\<open>wgs_bd\<close> calls \<^verbatim>\<open>gcj_bd(...)\<close> with one
  argument, so \<^verbatim>\<open>_dummy\<close> takes its default \<^verbatim>\<open>False\<close>.
\<close>

definition bd_wgs :: "coords \<Rightarrow> bool \<Rightarrow> coords \<times> warning list" where
  "bd_wgs bd check_china =
     (let (g, ws) = bd_gcj bd False;
          (w, ws') = gcj_wgs g check_china
      in (w, ws @ ws'))"

definition wgs_bd :: "coords \<Rightarrow> bool \<Rightarrow> coords \<times> warning list" where
  "wgs_bd bd check_china =
     (let (g, ws) = wgs_gcj bd check_china;
          (b, ws') = gcj_bd g False
      in (b, ws @ ws'))"

subsection \<open>The refiner\<close>

text \<open>
  The \<^verbatim>\<open>while\<close> loop of \<^verbatim>\<open>rev_bored\<close>, over the variables \<^verbatim>\<open>wgs\<close>, \<^verbatim>\<open>old\<close>,
  \<^verbatim>\<open>diff\<close> and \<^verbatim>\<open>i\<close> and the warnings emitted so far. It returns the variables as
  they are when the loop is left. Each iteration evaluates \<^verbatim>\<open>fwd\<close> once, so the final
  \<^verbatim>\<open>i\<close> is also the number of forward evaluations of the loop.
\<close>

function rev_bored_loop ::
  "(coords \<Rightarrow> bool \<Rightarrow> coords \<times> warning list) \<Rightarrow> coords \<Rightarrow> coords \<Rightarrow> coords \<Rightarrow> coords \<Rightarrow> nat
     \<Rightarrow> warning list \<Rightarrow> coords \<times> coords \<times> coords \<times> nat \<times> warning list" where
  "rev_bored_loop fwd bad wgs old diff i ws =
     (if i < 10 \<and> abs_coords diff > PRC_EPS then
        let r = fwd wgs False;
            diff' = fst r - bad;
            old' = wgs;
            wgs' = wgs - diff'
        in rev_bored_loop fwd bad wgs' old' diff' (i + 1) (ws @ snd r)
      else (wgs, old, diff, i, ws))"
  by pat_completeness auto

termination
  by (relation "measure (\<lambda>(fwd, bad, wgs, old, diff, i, ws). 10 - i)") auto

declare rev_bored_loop.simps [simp del]

text \<open>
  \<^verbatim>\<open>rev(bad)\<close> is a call with one argument: the parameter \<open>rev'\<close> of the model is the
  reverse conversion at its own default flag. The final variables of a run:
\<close>

definition rev_bored_run ::
  "(coords \<Rightarrow> bool \<Rightarrow> coords \<times> warning list) \<Rightarrow> (coords \<Rightarrow> coords \<times> warning list) \<Rightarrow> coords
     \<Rightarrow> coords \<times> coords \<times> coords \<times> nat \<times> warning list" where
  "rev_bored_run fwd rev' bad =
     (let (wgs, ws) = rev' bad;
          old = bad;
          diff = Coords 99 99
      in rev_bored_loop fwd bad wgs old diff 0 ws)"

definition rev_bored ::
  "(coords \<Rightarrow> bool \<Rightarrow> coords \<times> warning list) \<Rightarrow> (coords \<Rightarrow> coords \<times> warning list) \<Rightarrow> coords
     \<Rightarrow> bool \<Rightarrow> coords \<times> warning list" where
  "rev_bored fwd rev' bad check_china =
     (case rev_bored_run fwd rev' bad of (wgs, old, diff, i, ws) \<Rightarrow> (wgs, ws))"

definition rev_bored_iterations ::
  "(coords \<Rightarrow> bool \<Rightarrow> coords \<times> warning list) \<Rightarrow> (coords \<Rightarrow> coords \<times> warning list) \<Rightarrow> coords
     \<Rightarrow> nat" where
  "rev_bored_iterations fwd rev' bad =
     (case rev_bored_run fwd rev' bad of (wgs, old, diff, i, ws) \<Rightarrow> i)"

definition rev_bored_diff ::
  "(coords \<Rightarrow> bool \<Rightarrow> coords \<times> warning list) \<Rightarrow> (coords \<Rightarrow> coords \<times> warning list) \<Rightarrow> coords
     \<Rightarrow> coords" where
  "rev_bored_diff fwd rev' bad =
     (case rev_bored_run fwd rev' bad of (wgs, old, diff, i, ws) \<Rightarrow> diff)"

definition bored ::
  "(coords \<Rightarrow> bool \<Rightarrow> coords \<times> warning list) \<Rightarrow> (coords \<Rightarrow> coords \<times> warning list) \<Rightarrow> coords
     \<Rightarrow> bool \<Rightarrow> coords \<times> warning list" where
  "bored fwd rev' = rev_bored fwd rev'"

text \<open>
  The three precise functions. \<^verbatim>\<open>gcj_wgs\<close> and \<^verbatim>\<open>bd_wgs\<close> default to
  \<^verbatim>\<open>check_china=True\<close>, \<^verbatim>\<open>bd_gcj\<close> to \<^verbatim>\<open>_dummy=False\<close>.
\<close>

definition gcj_wgs_bored :: "coords \<Rightarrow> bool \<Rightarrow> coords \<times> warning list" where
  "gcj_wgs_bored = bored wgs_gcj (\<lambda>bad. gcj_wgs bad True)"

definition bd_gcj_bored :: "coords \<Rightarrow> bool \<Rightarrow> coords \<times> warning list" where
  "bd_gcj_bored = bored gcj_bd (\<lambda>bad. bd_gcj bad False)"

definition bd_wgs_bored :: "coords \<Rightarrow> bool \<Rightarrow> coords \<times> warning list" where
  "bd_wgs_bored = bored wgs_bd (\<lambda>bad. bd_wgs bad True)"

subsection \<open>The formulas of the specification\<close>

text \<open>
  The distortion model as the specification writes it, in the variables \<open>x = lon - 105\<close>
  and \<open>y = lat - 35\<close>, and the two arc lengths of one degree at a latitude.
\<close>

definition dLat_m_spec :: "real \<Rightarrow> real \<Rightarrow> real" where
  "dLat_m_spec x y =
     - 100 + 2 * x + 3 * y + 0.2 * y\<^sup>2 + 0.1 * (x * y) + 0.2 * sqrt \<bar>x\<bar>
     + (20 / 3)
       * (2 * sin (6 * pi * x) + 2 * sin (2 * pi * x) + 2 * sin (pi * y)
          + 4 * sin (pi * y / 3) + 16 * sin (pi * y / 12) + 32 * sin (pi * y / 30))"

definition dLon_m_spec :: "real \<Rightarrow> real \<Rightarrow> real" where
  "dLon_m_spec x y =
     300 + x + 2 * y + 0.1 * x\<^sup>2 + 0.1 * (x * y) + 0.1 * sqrt \<bar>x\<bar>
     + (20 / 3)
       * (2 * sin (6 * pi * x) + 2 * sin (2 * pi * x) + 2 * sin (pi * x)
          + 4 * sin (pi * x / 3) + 15 * sin (pi * x / 12) + 30 * sin (pi * x / 30))"

definition magic_spec :: "real \<Rightarrow> real" where
  "magic_spec la = 1 - 0.00669342162296594323 * (sin (radians la))\<^sup>2"

definition latArcLen_spec :: "real \<Rightarrow> real" where
  "latArcLen_spec la =
     radians (6378245 * (1 - 0.00669342162296594323) * magic_spec la powr 1.5)"

definition lonArcLen_spec :: "real \<Rightarrow> real" where
  "lonArcLen_spec la = radians (6378245 * cos (radians la) / sqrt (magic_spec la))"

definition wgsToGcj_spec :: "coords \<Rightarrow> coords" where
  "wgsToGcj_spec c =
     Coords
       (lat c + dLat_m_spec (lon c - 105) (lat c - 35) / latArcLen_spec (lat c))
       (lon c + dLon_m_spec (lon c - 105) (lat c - 35) / lonArcLen_spec (lat c))"

text \<open>The Baidu warp and its inverse as the specification writes them.\<close>

definition gcjToBd_spec :: "coords \<Rightarrow> coords" where
  "gcjToBd_spec c =
     (let r = sqrt ((lon c)\<^sup>2 + (lat c)\<^sup>2) + 0.00002 * sin (3000 * radians (lat c));
          theta = atan2 (lat c) (lon c) + 0.000003 * cos (3000 * radians (lon c))
      in Coords (r * sin theta + 0.0060) (r * cos theta + 0.0065))"

definition bdToGcj_spec :: "coords \<Rightarrow> coords" where
  "bdToGcj_spec c =
     (let y = lat c - 0.0060;
          x = lon c - 0.0065;
          r = sqrt (x\<^sup>2 + y\<^sup>2) - 0.00002 * sin (3000 * radians y);
          theta = atan2 y x - 0.000003 * cos (3000 * radians x)
      in Coords (r * sin theta) (r * cos theta))"

text \<open>
  The refiner as the specification writes it: up to \<open>n\<close> rounds of
  \<open>diff \<leftarrow> F(estimate, checkChina=false) - target; estimate \<leftarrow> estimate - diff\<close>, each
  entered only while \<open>|diff| > PRC_EPS\<close>. It returns the estimate and the number of rounds
  it has run.
\<close>

fun refine :: "nat \<Rightarrow> (coords \<Rightarrow> bool \<Rightarrow> coords) \<Rightarrow> coords \<Rightarrow> coords \<Rightarrow> coords \<Rightarrow> coords \<times> nat" where
  "refine 0 F target estimate diff = (estimate, 0)"
| "refine (Suc n) F target estimate diff =
     (if abs_coords diff > PRC_EPS then
        let diff' = F estimate False - target;
            (e, k) = refine n F target (estimate - diff') diff'
        in (e, Suc k)
      else (estimate, 0))"

definition refiner_spec ::
  "(coords \<Rightarrow> bool \<Rightarrow> coords) \<Rightarrow> (coords \<Rightarrow> coords) \<Rightarrow> coords \<Rightarrow> coords \<times> nat" where
  "refiner_spec F G target = refine 10 F target (G target) (Coords 99 99)"

subsection \<open>Binary64 addition, exactly\<close>

text \<open>
  Python's \<^verbatim>\<open>float\<close> is IEEE 754 binary64 and \<^verbatim>\<open>+\<close> rounds the exact sum to the nearest
  representable number, ties to the even significand. A finite binary64 number is
  \<open>m * 2 ^ e\<close> for integers \<open>\<bar>m\<bar> < 2 ^ 53\<close> and \<open>- 1074 \<le> e \<le> 971\<close>; the pair \<open>(m, e)\<close>
  stands for it. The sum of two such numbers is an integer multiple \<open>s\<close> of \<open>2 ^ e\<close> for the
  smaller of the two exponents, and it is rounded by dropping the bits of \<open>s\<close> beyond the
  first 53. (A sum of magnitude \<open>2 ^ 1024\<close> or more overflows to an infinity, which this
  model does not represent.)
\<close>

type_synonym float64 = "int \<times> int"

definition f64_val :: "float64 \<Rightarrow> real" where
  "f64_val f = of_int (fst f) * 2 powi (snd f)"

fun bit_length :: "nat \<Rightarrow> nat" where
  "bit_length n = (if n = 0 then 0 else Suc (bit_length (n div 2)))"

declare bit_length.simps [simp del]

definition round_even :: "int \<Rightarrow> nat \<Rightarrow> int" where
  "round_even n k =
     (let q = n div 2 ^ k;
          r = n mod 2 ^ k
      in if 2 * r > 2 ^ k \<or> (2 * r = 2 ^ k \<and> odd q) then q + 1 else q)"

definition fadd64 :: "float64 \<Rightarrow> float64 \<Rightarrow> float64" where
  "fadd64 a b =
     (let e = min (snd a) (snd b);
          s = fst a * 2 ^ nat (snd a - e) + fst b * 2 ^ nat (snd b - e);
          k = bit_length (nat \<bar>s\<bar>) - 53
      in (sgn s * round_even \<bar>s\<bar> k, e + int k))"

text \<open>
  \<^verbatim>\<open>Coords.__add__\<close> on binary64 components, and \<^verbatim>\<open>==\<close> on two such tuples, which
  compares the components as numbers.
\<close>

datatype coords64 = Coords64 (lat64: float64) (lon64: float64)

definition add64 :: "coords64 \<Rightarrow> coords64 \<Rightarrow> coords64" where
  "add64 self other =
     Coords64 (fadd64 (lat64 self) (lat64 other)) (fadd64 (lon64 self) (lon64 other))"

definition eq64 :: "coords64 \<Rightarrow> coords64 \<Rightarrow> bool" where
  "eq64 a b = (f64_val (lat64 a) = f64_val (lat64 b) \<and> f64_val (lon64 a) = f64_val (lon64 b))"

subsection \<open>Region check\<close>

text \<open>
  C8. \<^verbatim>\<open>sanity_in_china_p\<close> holds exactly on the closed rectangle
  \<open>0.8293 \<le> lat \<le> 55.8271\<close>, \<open>72.004 \<le> lon \<le> 137.8347\<close>: both corners
  \<open>(0.8293, 72.004)\<close> and \<open>(55.8271, 137.8347)\<close> are inside, while \<open>(0.8, 72.004)\<close> and
  \<open>(55.83, 137.8347)\<close> are outside.
\<close>

theorem sanity_in_china_p_box:
  "sanity_in_china_p (Coords la lo) =
     (0.8293 \<le> la \<and> la \<le> 55.8271 \<and> 72.004 \<le> lo \<and> lo \<le> 137.8347)
   \<and> sanity_in_china_p (Coords 0.8293 72.004)
   \<and> sanity_in_china_p (Coords 55.8271 137.8347)
   \<and> \<not> sanity_in_china_p (Coords 0.8 72.004)
   \<and> \<not> sanity_in_china_p (Coords 55.83 137.8347)"
  by (simp add: sanity_in_china_p_def)

subsection \<open>The forward distortion model\<close>

lemma dLat_m_code_eq:
  "- 100 + 2 * x + 3 * y + 0.2 * y * y + 0.1 * x * y + 0.2 * sqrt \<bar>x\<bar>
     + (2 * sin (x * 6 * pi) + 2 * sin (x * 2 * pi) + 2 * sin (y * pi)
        + 4 * sin (y / 3 * pi) + 16 * sin (y / 12 * pi) + 32 * sin (y / 30 * pi)) * 20 / 3
   = dLat_m_spec x y"
  by (simp add: dLat_m_spec_def power2_eq_square mult.commute mult.left_commute)

lemma dLon_m_code_eq:
  "300 + x + 2 * y + 0.1 * x * x + 0.1 * x * y + 0.1 * sqrt \<bar>x\<bar>
     + (2 * sin (x * 6 * pi) + 2 * sin (x * 2 * pi) + 2 * sin (x * pi)
        + 4 * sin (x / 3 * pi) + 15 * sin (x / 12 * pi) + 30 * sin (x / 30 * pi)) * 20 / 3
   = dLon_m_spec x y"
  by (simp add: dLon_m_spec_def power2_eq_square mult.commute mult.left_commute)

text \<open>
  The operands of the partial operations of \<^verbatim>\<open>wgs_gcj\<close>: \<open>magic\<close> is positive at every
  latitude, hence so is the arc length of a degree of latitude; the arc length of a degree
  of longitude is positive strictly between the poles, in particular inside the bounding
  box.
\<close>

lemma magic_spec_pos: "0 < magic_spec la"
proof -
  have "(sin (radians la))\<^sup>2 \<le> 1"
    by (simp add: abs_square_le_1 abs_sin_le_one)
  then have "0.00669342162296594323 * (sin (radians la))\<^sup>2 \<le> 0.00669342162296594323 * 1"
    by (intro mult_left_mono) simp_all
  then show ?thesis
    by (simp add: magic_spec_def)
qed

lemma lat_deg_arclen_pos: "0 < latArcLen_spec la"
  using magic_spec_pos [of la]
  by (simp add: latArcLen_spec_def radians_def)

lemma lon_deg_arclen_pos:
  assumes "- 90 < la" "la < 90"
  shows "0 < lonArcLen_spec la"
proof -
  have "- 90 * (pi / 180) < la * (pi / 180)" "la * (pi / 180) < 90 * (pi / 180)"
    using assms
    by (simp_all only: mult_less_cancel_right_pos pi_gt_zero divide_pos_pos zero_less_numeral)
  then have "- (pi / 2) < radians la" "radians la < pi / 2"
    by (simp_all add: radians_def)
  then have "0 < cos (radians la)"
    by (rule cos_gt_zero_pi)
  then show ?thesis
    using magic_spec_pos [of la]
    by (simp add: lonArcLen_spec_def radians_def)
qed

lemma lon_deg_arclen_pos_in_china:
  "sanity_in_china_p c \<Longrightarrow> 0 < lonArcLen_spec (lat c)"
  by (rule lon_deg_arclen_pos) (simp_all add: sanity_in_china_p_def)

lemma wgs_gcj_unchecked: "wgs_gcj wgs False = (wgsToGcj_spec wgs, [])"
  unfolding wgs_gcj_def wgsToGcj_spec_def Let_def dLat_m_code_eq dLon_m_code_eq
  by (simp add: latArcLen_spec_def lonArcLen_spec_def magic_spec_def GCJ_A_def GCJ_EE_def)

lemma wgs_gcj_inside: "sanity_in_china_p wgs \<Longrightarrow> wgs_gcj wgs True = wgs_gcj wgs False"
  by (simp add: wgs_gcj_def)

lemma wgs_gcj_outside:
  "\<not> sanity_in_china_p wgs \<Longrightarrow> wgs_gcj wgs True = (wgs, [NonChinese wgs])"
  by (simp add: wgs_gcj_def)

text \<open>
  C1. For a coordinate inside the bounding box, or with \<open>check_china\<close> false, \<^verbatim>\<open>wgs_gcj\<close>
  returns \<open>(lat + dLat_m / latArcLen, lon + dLon_m / lonArcLen)\<close> and emits no warning, where
  \<open>dLat_m\<close> and \<open>dLon_m\<close> are the two distortion formulas of the specification at
  \<open>x = lon - 105\<close>, \<open>y = lat - 35\<close>, and the arc lengths are those of the specification
  (\<open>a = 6378245\<close>, \<open>e\<^sup>2 = 0.00669342162296594323\<close>) at the input latitude.
\<close>

theorem wgs_gcj_formula:
  "sanity_in_china_p (Coords la lo) \<or> \<not> check_china \<Longrightarrow>
   wgs_gcj (Coords la lo) check_china =
     (Coords (la + dLat_m_spec (lo - 105) (la - 35) / latArcLen_spec la)
             (lo + dLon_m_spec (lo - 105) (la - 35) / lonArcLen_spec la), [])"
  unfolding wgs_gcj_def Let_def dLat_m_code_eq dLon_m_code_eq
  by (auto simp add: latArcLen_spec_def lonArcLen_spec_def magic_spec_def GCJ_A_def GCJ_EE_def)

theorem wgs_gcj_formula_witness:
  "sanity_in_china_p (Coords 35 105)
   \<and> wgs_gcj (Coords 35 105) True =
       (Coords (35 + (- 100) / latArcLen_spec 35) (105 + 300 / lonArcLen_spec 35), [])
   \<and> \<not> sanity_in_china_p (Coords 60 105)
   \<and> wgs_gcj (Coords 60 105) False =
       (Coords (60 + dLat_m_spec 0 25 / latArcLen_spec 60) (105 + 350 / lonArcLen_spec 60), [])"
  using wgs_gcj_formula [of 35 105 True] wgs_gcj_formula [of 60 105 False]
  by (simp add: sanity_in_china_p_def dLat_m_spec_def dLon_m_spec_def)

subsection \<open>Coordinates outside the bounding box\<close>

text \<open>
  C3. With \<open>check_china\<close> true, \<^verbatim>\<open>wgs_gcj\<close> returns a coordinate outside the bounding box
  unchanged, as a value, together with one warning for that coordinate; London,
  \<open>(51.5074, -0.1278)\<close>, is such a coordinate.
\<close>

theorem wgs_gcj_outside_china:
  "(\<not> sanity_in_china_p wgs \<longrightarrow> wgs_gcj wgs True = (wgs, [NonChinese wgs]))
   \<and> wgs_gcj (Coords 51.5074 (- 0.1278)) True
       = (Coords 51.5074 (- 0.1278), [NonChinese (Coords 51.5074 (- 0.1278))])"
  by (simp add: wgs_gcj_def sanity_in_china_p_def)

theorem wgs_gcj_outside_china_witness:
  "\<not> sanity_in_china_p (Coords 40.7128 (- 74.006))
   \<and> wgs_gcj (Coords 40.7128 (- 74.006)) True
       = (Coords 40.7128 (- 74.006), [NonChinese (Coords 40.7128 (- 74.006))])"
  using wgs_gcj_outside_china [of "Coords 40.7128 (- 74.006)"]
  by (simp add: sanity_in_china_p_def)

subsection \<open>The Baidu warp\<close>

text \<open>
  C4. \<^verbatim>\<open>gcj_bd\<close> computes \<open>(r * sin theta + 0.0060, r * cos theta + 0.0065)\<close> with
  \<open>r = sqrt (lon\<^sup>2 + lat\<^sup>2) + 0.00002 * sin (3000 * radians lat)\<close> and
  \<open>theta = atan2 lat lon + 0.000003 * cos (3000 * radians lon)\<close>; \<^verbatim>\<open>bd_gcj\<close> removes the
  offset first and applies the same formulas, with both perturbation terms subtracted, at
  the offset-removed coordinates. Neither emits a warning.
\<close>

theorem gcj_bd_formula:
  "gcj_bd c d = (gcjToBd_spec c, []) \<and> bd_gcj c d = (bdToGcj_spec c, [])"
  by (simp add: gcj_bd_def bd_gcj_def gcjToBd_spec_def bdToGcj_spec_def Let_def
      BD_DLAT_def BD_DLON_def power2_eq_square mult.commute add.commute)

subsection \<open>The single-step inverse\<close>

lemma coords_sub_self: "(p::coords) - (p - p) = p"
  by (cases p) (simp add: minus_coords_def)

lemma gcj_wgs_unchecked: "gcj_wgs p False = (p - (wgsToGcj_spec p - p), [])"
  by (simp add: gcj_wgs_def wgs_gcj_unchecked)

text \<open>
  C5. With \<open>check_china\<close> false, \<^verbatim>\<open>gcj_wgs\<close> returns \<open>p - (wgs_gcj(p, False) - p)\<close>: the
  forward model is evaluated once, at the GCJ-02 point itself, where it is the distortion
  formula of the specification and emits no warning, and the displacement it gives is
  subtracted from the point.
\<close>

theorem gcj_wgs_single_step:
  "gcj_wgs p False = (p - (fst (wgs_gcj p False) - p), [])
   \<and> snd (wgs_gcj p False) = []
   \<and> fst (wgs_gcj p False) = wgsToGcj_spec p"
  by (simp add: gcj_wgs_def wgs_gcj_unchecked)

subsection \<open>The refiner\<close>

lemma canary_above_eps: "abs_coords (Coords 99 99) > PRC_EPS"
proof -
  have "(1::real) \<le> sqrt (99\<^sup>2 + 99\<^sup>2)"
    by (rule real_le_rsqrt) simp
  then have "1 \<le> abs_coords (Coords 99 99)"
    by (simp only: abs_coords_def coords.sel)
  moreover have "PRC_EPS < 1"
    by (simp add: PRC_EPS_def)
  ultimately show ?thesis
    by linarith
qed

lemma rev_bored_loop_refine:
  "i \<le> 10 \<Longrightarrow>
   (case rev_bored_loop fwd bad wgs old diff i ws of (w, ol, d, j, ws') \<Rightarrow> (w, j))
     = (case refine (10 - i) (\<lambda>p c. fst (fwd p c)) bad wgs diff of (e, k) \<Rightarrow> (e, i + k))"
proof (induction fwd bad wgs old diff i ws rule: rev_bored_loop.induct)
  case (1 fwd bad wgs old diff i ws)
  show ?case
  proof (cases "i < 10 \<and> abs_coords diff > PRC_EPS")
    case True
    then have fuel: "10 - i = Suc (10 - (i + 1))"
      by arith
    from True have le: "i + 1 \<le> 10"
      by simp
    show ?thesis
      using True "1.IH" [OF True refl refl refl refl le]
      by (subst rev_bored_loop.simps, subst fuel)
         (simp add: Let_def split: prod.splits)
  next
    case False
    then show ?thesis
      by (subst rev_bored_loop.simps, cases "10 - i") auto
  qed
qed

lemma refine_rounds_le: "snd (refine n F target estimate diff) \<le> n"
proof (induction n arbitrary: estimate diff)
  case 0
  show ?case by simp
next
  case (Suc n)
  show ?case
    using Suc.IH [of "estimate - (F estimate False - target)" "F estimate False - target"]
    by (auto simp: Let_def split: prod.splits)
qed

lemma rev_bored_loop_stop:
  "(case rev_bored_loop fwd bad wgs old diff i ws of (w, ol, d, j, ws') \<Rightarrow>
      \<not> (j < 10 \<and> abs_coords d > PRC_EPS))"
proof (induction fwd bad wgs old diff i ws rule: rev_bored_loop.induct)
  case (1 fwd bad wgs old diff i ws)
  show ?case
  proof (cases "i < 10 \<and> abs_coords diff > PRC_EPS")
    case True
    show ?thesis
      using True "1.IH" [OF True refl refl refl refl]
      by (subst rev_bored_loop.simps) (simp add: Let_def)
  next
    case False
    then show ?thesis
      by (subst rev_bored_loop.simps) auto
  qed
qed

lemma rev_bored_loop_flag:
  "rev_bored_loop (\<lambda>p c. fwd p False) bad wgs old diff i ws = rev_bored_loop fwd bad wgs old diff i ws"
proof (induction fwd bad wgs old diff i ws rule: rev_bored_loop.induct)
  case (1 fwd bad wgs old diff i ws)
  show ?case
  proof (cases "i < 10 \<and> abs_coords diff > PRC_EPS")
    case True
    show ?thesis
      using True "1.IH" [OF True refl refl refl refl]
      by (subst (1 2) rev_bored_loop.simps) (simp add: Let_def)
  next
    case False
    then show ?thesis
      by (subst (1 2) rev_bored_loop.simps) auto
  qed
qed

lemma rev_bored_refiner:
  "(fst (rev_bored fwd rev' bad check_china), rev_bored_iterations fwd rev' bad)
     = refiner_spec (\<lambda>p c. fst (fwd p c)) (\<lambda>p. fst (rev' p)) bad"
proof -
  obtain w ws where r: "rev' bad = (w, ws)"
    by (cases "rev' bad")
  obtain w' ol d j ws' where l: "rev_bored_loop fwd bad w bad (Coords 99 99) 0 ws = (w', ol, d, j, ws')"
    by (cases "rev_bored_loop fwd bad w bad (Coords 99 99) 0 ws")
  show ?thesis
    using rev_bored_loop_refine [of 0 fwd bad w bad "Coords 99 99" ws] r l
    by (simp add: rev_bored_def rev_bored_iterations_def rev_bored_run_def refiner_spec_def
        split: prod.splits)
qed

lemma rev_bored_iterations_bounds:
  "1 \<le> rev_bored_iterations fwd rev' bad \<and> rev_bored_iterations fwd rev' bad \<le> 10"
proof -
  let ?F = "\<lambda>p c. fst (fwd p c)" and ?G = "\<lambda>p. fst (rev' p)"
  have eq: "rev_bored_iterations fwd rev' bad = snd (refiner_spec ?F ?G bad)"
    using rev_bored_refiner [of fwd rev' bad True] by (metis snd_conv)
  have "snd (refiner_spec ?F ?G bad) \<le> 10"
    unfolding refiner_spec_def by (rule refine_rounds_le)
  moreover have "1 \<le> snd (refiner_spec ?F ?G bad)"
    using canary_above_eps
    by (simp add: refiner_spec_def eval_nat_numeral Let_def split: prod.splits)
  ultimately show ?thesis
    using eq by simp
qed

lemma rev_bored_stop:
  "rev_bored_iterations fwd rev' bad = 10 \<or> abs_coords (rev_bored_diff fwd rev' bad) \<le> PRC_EPS"
  using rev_bored_loop_stop [of fwd bad "fst (rev' bad)" bad "Coords 99 99" 0 "snd (rev' bad)"]
    rev_bored_iterations_bounds [of fwd rev' bad]
  by (auto simp add: rev_bored_iterations_def rev_bored_diff_def rev_bored_run_def
      Let_def split: prod.splits)

lemma rev_bored_flag:
  "rev_bored (\<lambda>p c. fwd p False) rev' bad check_china = rev_bored fwd rev' bad check_china"
  by (simp add: rev_bored_def rev_bored_run_def rev_bored_loop_flag)

text \<open>
  Both ends of the range of iterations are reached. When \<^verbatim>\<open>fwd\<close> is the identity the
  loop is left after one round. When \<^verbatim>\<open>fwd\<close> doubles its argument the estimates for the
  target \<open>(1, 0)\<close> alternate between \<open>(0, 0)\<close> and \<open>(1, 0)\<close>, \<open>|diff|\<close> stays \<open>1\<close>, and
  the loop is left at the cap with the tenth estimate.
\<close>

lemma abs_coords_unit: "abs_coords (Coords 1 0) > PRC_EPS" "abs_coords (Coords (- 1) 0) > PRC_EPS"
  by (simp_all add: abs_coords_def PRC_EPS_def)

lemma rev_bored_cap_reached:
  "rev_bored_run (\<lambda>p c. (p + p, [])) (\<lambda>p. (p, [])) (Coords 1 0)
     = (Coords 1 0, Coords 0 0, Coords (- 1) 0, 10, [])"
  using abs_coords_unit canary_above_eps
  by (simp add: rev_bored_run_def rev_bored_loop.simps Let_def plus_coords_def minus_coords_def)

lemma rev_bored_one_round:
  "rev_bored_run (\<lambda>p c. (p, [])) (\<lambda>p. (p, [])) (Coords 1 0)
     = (Coords 1 0, Coords 1 0, Coords 0 0, 1, [])"
  using canary_above_eps
  by (simp add: rev_bored_run_def rev_bored_loop.simps Let_def minus_coords_def abs_coords_def PRC_EPS_def)

text \<open>
  The loop adds no warning when \<^verbatim>\<open>fwd\<close> emits none at the flag \<open>False\<close>: the warnings
  of a precise inverse are then those of the first call, \<^verbatim>\<open>rev(bad)\<close>.
\<close>

lemma rev_bored_loop_warnings:
  assumes "\<And>q. snd (fwd q False) = []"
  shows "(case rev_bored_loop fwd bad wgs old diff i ws of (w, ol, d, j, ws') \<Rightarrow> ws') = ws"
  using assms
proof (induction fwd bad wgs old diff i ws rule: rev_bored_loop.induct)
  case (1 fwd bad wgs old diff i ws)
  show ?case
  proof (cases "i < 10 \<and> abs_coords diff > PRC_EPS")
    case True
    show ?thesis
      using True "1.IH" [OF True refl refl refl refl "1.prems"] "1.prems" [of wgs]
      by (subst rev_bored_loop.simps) (simp add: Let_def)
  next
    case False
    then show ?thesis
      by (subst rev_bored_loop.simps) auto
  qed
qed

lemma rev_bored_warnings:
  assumes "\<And>q. snd (fwd q False) = []"
  shows "snd (rev_bored fwd rev' bad check_china) = snd (rev' bad)"
proof -
  obtain w ws where r: "rev' bad = (w, ws)"
    by (cases "rev' bad")
  obtain w' ol d j ws' where l: "rev_bored_loop fwd bad w bad (Coords 99 99) 0 ws = (w', ol, d, j, ws')"
    by (cases "rev_bored_loop fwd bad w bad (Coords 99 99) 0 ws")
  show ?thesis
    using rev_bored_loop_warnings [of fwd bad w bad "Coords 99 99" 0 ws, OF assms] r l
    by (simp add: rev_bored_def rev_bored_run_def)
qed

lemma wgs_bd_unchecked_warnings: "snd (wgs_bd q False) = []"
  by (simp add: wgs_bd_def wgs_gcj_unchecked gcj_bd_def Let_def)

text \<open>
  The lemmas of this subsection describe a loop in which every call of \<^verbatim>\<open>fwd\<close>
  returns a number, as every function of the real-number model does: it starts from
  \<^verbatim>\<open>rev(bad)\<close> and the sentinel \<open>(99, 99)\<close>, runs between 1 and 10 iterations with one
  call of \<^verbatim>\<open>fwd\<close> at the flag \<open>False\<close> each, and is left at the cap or with
  \<open>|diff| \<le> PRC_EPS\<close>, as the comment in the source says (\<^verbatim>\<open>Wait till we hit fixed
  point or get bored\<close>).

  Claim C2 says so of the three precise inverses at every target, and there the program
  fails at the poles. At latitude \<open>90\<close> the arc length of a degree of longitude is zero
  (lemma \<open>lon_deg_arclen_pole\<close>). The binary64 cosine of \<^verbatim>\<open>radians(90.0)\<close> is about
  \<^verbatim>\<open>6.1e-17\<close>, so the first forward evaluation of \<^verbatim>\<open>gcj_wgs_bored((90, 105))\<close>
  moves the longitude by about \<^verbatim>\<open>6e13\<close> degrees where the model, dividing by zero,
  leaves it. Each further evaluation roughly squares the estimate (the terms
  \<^verbatim>\<open>0.1 * x * x\<close> and \<^verbatim>\<open>0.2 * y * y\<close>), the sixth leaves the range of binary64, and
  the seventh raises \<^verbatim>\<open>ValueError\<close> in \<^verbatim>\<open>math.sin\<close>: no estimate is returned. For the
  target \<^verbatim>\<open>(90.0, 0.0)\<close> the sixth difference is \<^verbatim>\<open>nan\<close>, for which
  \<^verbatim>\<open>abs(diff) > PRC_EPS\<close> is false: the loop is left after six iterations, neither
  converged nor at the cap, and \<^verbatim>\<open>(nan, nan)\<close> is returned. Infinite and undefined
  numbers are outside the real-number model, so C2 is not proved of the precise inverses;
  it is reported as a defect of the code at these inputs.
\<close>

lemma lon_deg_arclen_pole:
  "lonArcLen_spec 90 = 0 \<and> lonArcLen_spec (- 90) = 0
   \<and> lon (fst (wgs_gcj (Coords 90 lo) False)) = lo"
proof -
  have "cos (radians 90) = 0" "cos (radians (- 90)) = 0"
    by (simp_all add: radians_def)
  then have "lonArcLen_spec 90 = 0" "lonArcLen_spec (- 90) = 0"
    unfolding lonArcLen_spec_def by (simp_all add: radians_def)
  then show ?thesis
    by (simp add: wgs_gcj_unchecked wgsToGcj_spec_def)
qed

subsection \<open>The flag of the precise inverses\<close>

text \<open>
  C10. The \<open>check_china\<close> argument of the three precise functions has no effect on what
  they return, value and warnings alike: the closure made by \<^verbatim>\<open>_bored\<close> never reads it.
  The first call \<^verbatim>\<open>rev(bad)\<close> runs at the default flag of \<^verbatim>\<open>rev\<close> and the loop calls
  \<^verbatim>\<open>fwd\<close> at \<open>False\<close>, so whatever flag is passed, the warnings of a precise function
  are those of its single-step inverse at that default.
\<close>

theorem precise_ignore_check_china:
  "gcj_wgs_bored p True = gcj_wgs_bored p False
   \<and> bd_gcj_bored p True = bd_gcj_bored p False
   \<and> bd_wgs_bored p True = bd_wgs_bored p False
   \<and> bored fwd rev' p True = bored fwd rev' p False
   \<and> snd (gcj_wgs_bored p c) = snd (gcj_wgs p True)
   \<and> snd (bd_gcj_bored p c) = []
   \<and> snd (bd_wgs_bored p c) = snd (bd_wgs p True)"
proof -
  have "snd (gcj_wgs_bored p c) = snd (gcj_wgs p True)"
    unfolding gcj_wgs_bored_def bored_def
    by (rule rev_bored_warnings) (simp add: wgs_gcj_unchecked)
  moreover have "snd (bd_gcj_bored p c) = snd (bd_gcj p False)"
    unfolding bd_gcj_bored_def bored_def
    by (rule rev_bored_warnings) (simp add: gcj_bd_def Let_def)
  moreover have "snd (bd_wgs_bored p c) = snd (bd_wgs p True)"
    unfolding bd_wgs_bored_def bored_def
    by (rule rev_bored_warnings) (rule wgs_bd_unchecked_warnings)
  ultimately show ?thesis
    by (simp add: gcj_wgs_bored_def bd_gcj_bored_def bd_wgs_bored_def bored_def rev_bored_def
        bd_gcj_def Let_def)
qed

subsection \<open>The region check in the inverses\<close>

lemma outside_60_105: "\<not> sanity_in_china_p (Coords 60 105)"
  by (simp add: sanity_in_china_p_def)

lemma dLon_m_60_105: "dLon_m_spec (105 - 105) (60 - 35) = 350"
  by (simp add: dLon_m_spec_def)

text \<open>
  The claim C6 as it is written fails for the single-step inverse: \<open>(60, 105)\<close> lies
  outside the bounding box, and there \<^verbatim>\<open>gcj_wgs\<close> with \<open>check_china\<close> true returns the
  point itself, while with \<open>check_china\<close> false it moves the point (by \<open>350\<close> metres of
  longitude at that latitude).
\<close>

theorem gcj_wgs_check_china_counterexample:
  "\<not> sanity_in_china_p (Coords 60 105)
   \<and> fst (gcj_wgs (Coords 60 105) True) \<noteq> fst (gcj_wgs (Coords 60 105) False)"
proof -
  have pos: "0 < lonArcLen_spec 60"
    by (rule lon_deg_arclen_pos) simp_all
  have t: "fst (gcj_wgs (Coords 60 105) True) = Coords 60 105"
    by (simp add: gcj_wgs_def wgs_gcj_outside [OF outside_60_105] coords_sub_self)
  have "lon (fst (gcj_wgs (Coords 60 105) False)) = 105 - 350 / lonArcLen_spec 60"
    using dLon_m_60_105
    by (simp add: gcj_wgs_unchecked wgsToGcj_spec_def minus_coords_def)
  moreover have "105 - 350 / lonArcLen_spec 60 \<noteq> 105"
    using pos by simp
  ultimately have "lon (fst (gcj_wgs (Coords 60 105) False)) \<noteq> lon (Coords 60 105)"
    by simp
  then have "fst (gcj_wgs (Coords 60 105) False) \<noteq> Coords 60 105"
    by auto
  with t outside_60_105 show ?thesis
    by simp
qed

text \<open>
  C6, amended. The three precise inverses return the same result for both values of
  \<open>check_china\<close>. The single-step inverse hands its flag to the forward model: inside the
  bounding box both values of the flag give the same result, and outside it
  \<^verbatim>\<open>gcj_wgs\<close> with \<open>check_china\<close> true returns its input unchanged with one warning.
\<close>

theorem inverses_check_china:
  "(sanity_in_china_p p \<longrightarrow> gcj_wgs p True = gcj_wgs p False)
   \<and> (\<not> sanity_in_china_p p \<longrightarrow> gcj_wgs p True = (p, [NonChinese p]))
   \<and> gcj_wgs_bored p True = gcj_wgs_bored p False
   \<and> bd_gcj_bored p True = bd_gcj_bored p False
   \<and> bd_wgs_bored p True = bd_wgs_bored p False"
  by (simp add: gcj_wgs_def wgs_gcj_inside wgs_gcj_outside coords_sub_self
      gcj_wgs_bored_def bd_gcj_bored_def bd_wgs_bored_def bored_def rev_bored_def)

theorem inverses_check_china_witness:
  "sanity_in_china_p (Coords 35 105)
   \<and> gcj_wgs (Coords 35 105) True = gcj_wgs (Coords 35 105) False
   \<and> \<not> sanity_in_china_p (Coords 60 105)
   \<and> gcj_wgs (Coords 60 105) True = (Coords 60 105, [NonChinese (Coords 60 105)])"
  using inverses_check_china [of "Coords 35 105"] inverses_check_china [of "Coords 60 105"]
  by (simp add: sanity_in_china_p_def)

subsection \<open>The region check in the composed conversions\<close>

lemma gcj_bd_origin: "gcj_bd (Coords 0 0) d = (Coords 0.006 0.0065, [])"
  by (simp add: gcj_bd_def radians_def BD_DLAT_def BD_DLON_def)

lemma bd_gcj_offset: "bd_gcj (Coords 0.006 0.0065) d = (Coords 0 0, [])"
  by (simp add: bd_gcj_def radians_def BD_DLAT_def BD_DLON_def)

lemma outside_origin: "\<not> sanity_in_china_p (Coords 0 0)"
  by (simp add: sanity_in_china_p_def)

text \<open>
  Where both perturbation terms vanish the warp is the change from polar to Cartesian
  coordinates and back, so that \<^verbatim>\<open>bd_gcj\<close> and \<^verbatim>\<open>gcj_bd\<close> can be evaluated exactly:
  at \<open>y = 30\<close> the sine term is \<open>sin (500 * pi)\<close> and at \<open>x = 100.05\<close> the cosine term is
  \<open>cos (3335 * pi / 2)\<close>. With the cosine term alone vanishing, the latitude that
  \<^verbatim>\<open>bd_gcj\<close> returns is within \<open>0.00002\<close> of \<open>y\<close>.
\<close>

lemma polar_sin:
  assumes "0 < x"
  shows "sqrt (x * x + y * y) * sin (atan2 y x) = y"
proof -
  have r: "0 < sqrt (x * x + y * y)"
    using assms by (simp add: add_pos_nonneg)
  have "1 + (y / x)\<^sup>2 = (x * x + y * y) / (x * x)"
    using assms by (simp add: field_simps power2_eq_square)
  then have "sqrt (1 + (y / x)\<^sup>2) = sqrt (x * x + y * y) / x"
    using assms by (simp add: real_sqrt_divide)
  then have "sin (arctan (y / x)) = y / sqrt (x * x + y * y)"
    using assms by (simp add: sin_arctan)
  then show ?thesis
    using assms r by (simp add: atan2_def)
qed

lemma polar_cos:
  assumes "0 < x"
  shows "sqrt (x * x + y * y) * cos (atan2 y x) = x"
proof -
  have r: "0 < sqrt (x * x + y * y)"
    using assms by (simp add: add_pos_nonneg)
  have "1 + (y / x)\<^sup>2 = (x * x + y * y) / (x * x)"
    using assms by (simp add: field_simps power2_eq_square)
  then have "sqrt (1 + (y / x)\<^sup>2) = sqrt (x * x + y * y) / x"
    using assms by (simp add: real_sqrt_divide)
  then have "cos (arctan (y / x)) = x / sqrt (x * x + y * y)"
    using assms by (simp add: cos_arctan)
  then show ?thesis
    using assms r by (simp add: atan2_def)
qed

lemma cos_3335: "cos (3335 * pi / 2) = 0"
  using cos_pi_eq_zero [of 1667] by (simp add: mult.commute)

lemma radians_30: "radians 30 * 3000 = 500 * pi"
  by (simp add: radians_def)

lemma radians_100_05: "radians 100.05 * 3000 = 3335 * pi / 2"
  by (simp add: radians_def)

lemma bd_gcj_nice: "bd_gcj (Coords 30.006 100.0565) d = (Coords 30 100.05, [])"
proof -
  have x: "100.0565 - BD_DLON = 100.05" and y: "30.006 - BD_DLAT = 30"
    by (simp_all add: BD_DLON_def BD_DLAT_def)
  show ?thesis
    unfolding bd_gcj_def Let_def coords.sel x y radians_30 radians_100_05 cos_3335
    using polar_sin [of "100.05" 30] polar_cos [of "100.05" 30]
    by simp
qed

lemma gcj_bd_nice: "gcj_bd (Coords 30 100.05) d = (Coords 30.006 100.0565, [])"
  unfolding gcj_bd_def Let_def coords.sel radians_30 radians_100_05 cos_3335
  using polar_sin [of "100.05" 30] polar_cos [of "100.05" 30]
  by (simp add: BD_DLON_def BD_DLAT_def mult.commute)

lemma bd_gcj_lat_bound:
  assumes x: "0 < lon bd - BD_DLON" and y: "0 \<le> lat bd - BD_DLAT"
    and c: "cos (radians (lon bd - BD_DLON) * 3000) = 0"
  shows "lat (fst (bd_gcj bd d)) \<le> lat bd - BD_DLAT + 0.00002"
proof -
  define x where "x = lon bd - BD_DLON"
  define y where "y = lat bd - BD_DLAT"
  define R where "R = sqrt (x * x + y * y)"
  define s where "s = sin (radians y * 3000)"
  have R: "0 < R"
    using x unfolding R_def x_def by (simp add: add_pos_nonneg)
  have "y\<^sup>2 \<le> x * x + y * y"
    by (simp add: power2_eq_square)
  then have yR: "y \<le> R"
    unfolding R_def by (rule real_le_rsqrt)
  have sinv: "sin (atan2 y x) = y / R"
    using polar_sin [of x y] x R by (simp add: R_def x_def field_simps)
  have s: "\<bar>s\<bar> \<le> 1"
    unfolding s_def by (rule abs_sin_le_one)
  have "lat (fst (bd_gcj bd d)) = (R - 0.00002 * s) * sin (atan2 y x - 0.000003 * cos (radians x * 3000))"
    by (simp add: bd_gcj_def Let_def R_def s_def x_def y_def)
  also have "\<dots> = (R - 0.00002 * s) * (y / R)"
    using c [folded x_def] by (simp add: sinv)
  also have "\<dots> = y - 0.00002 * (s * (y / R))"
    using R by (simp add: field_simps)
  finally have eq: "lat (fst (bd_gcj bd d)) = y - 0.00002 * (s * (y / R))" .
  have "\<bar>y / R\<bar> \<le> 1"
    using R yR y by (simp add: y_def)
  then have "\<bar>s\<bar> * \<bar>y / R\<bar> \<le> 1 * 1"
    using s by (intro mult_mono) simp_all
  then have "\<bar>s * (y / R)\<bar> \<le> 1"
    by (simp add: abs_mult)
  then have "- (s * (y / R)) \<le> 1"
    by linarith
  then have "- (0.00002 * (s * (y / R))) \<le> 0.00002"
    by simp
  then show ?thesis
    unfolding eq y_def [symmetric] by simp
qed

lemma bd_gcj_0831_outside: "\<not> sanity_in_china_p (fst (bd_gcj (Coords 0.831 100.0565) False))"
proof -
  have x: "lon (Coords 0.831 100.0565) - BD_DLON = 100.05"
    by (simp add: BD_DLON_def)
  have "lat (fst (bd_gcj (Coords 0.831 100.0565) False))
          \<le> lat (Coords 0.831 100.0565) - BD_DLAT + 0.00002"
    by (rule bd_gcj_lat_bound) (simp_all only: x radians_100_05 cos_3335, simp_all add: BD_DLAT_def)
  then have "lat (fst (bd_gcj (Coords 0.831 100.0565) False)) < 0.8293"
    by (simp add: BD_DLAT_def)
  then show ?thesis
    by (simp add: sanity_in_china_p_def)
qed

text \<open>
  The claim C7 as it is written fails for both composed conversions: \<open>(0, 0)\<close> is outside
  the bounding box and \<^verbatim>\<open>wgs_bd\<close> with \<open>check_china\<close> true maps it to
  \<open>(0.006, 0.0065)\<close>; \<open>(0.006, 0.0065)\<close> is outside the bounding box and \<^verbatim>\<open>bd_wgs\<close> with
  \<open>check_china\<close> true maps it to \<open>(0, 0)\<close>. The region check of \<^verbatim>\<open>bd_wgs\<close> is made
  at the intermediate GCJ-02 coordinate: \<open>(0.831, 100.0565)\<close> is inside the bounding box,
  and \<^verbatim>\<open>bd_wgs\<close> still warns and stops at \<^verbatim>\<open>bd_gcj\<close> of it, whose latitude is below
  \<open>0.8293\<close>.
\<close>

theorem composed_passthrough_counterexample:
  "\<not> sanity_in_china_p (Coords 0 0)
   \<and> fst (wgs_bd (Coords 0 0) True) \<noteq> Coords 0 0
   \<and> \<not> sanity_in_china_p (Coords 0.006 0.0065)
   \<and> fst (bd_wgs (Coords 0.006 0.0065) True) \<noteq> Coords 0.006 0.0065
   \<and> sanity_in_china_p (Coords 0.831 100.0565)
   \<and> bd_wgs (Coords 0.831 100.0565) True
       = (fst (bd_gcj (Coords 0.831 100.0565) False),
          [NonChinese (fst (bd_gcj (Coords 0.831 100.0565) False))])"
proof -
  have c: "bd_wgs (Coords 0.831 100.0565) True
             = (fst (bd_gcj (Coords 0.831 100.0565) False),
                [NonChinese (fst (bd_gcj (Coords 0.831 100.0565) False))])"
    using bd_gcj_0831_outside
    by (simp add: bd_wgs_def gcj_wgs_def wgs_gcj_outside coords_sub_self bd_gcj_def Let_def)
  have a: "fst (wgs_bd (Coords 0 0) True) = Coords 0.006 0.0065"
    by (simp add: wgs_bd_def wgs_gcj_outside [OF outside_origin] gcj_bd_origin)
  have b: "fst (bd_wgs (Coords 0.006 0.0065) True) = Coords 0 0"
    unfolding bd_wgs_def Let_def bd_gcj_offset
    by (simp add: gcj_wgs_def wgs_gcj_outside [OF outside_origin] coords_sub_self)
  show ?thesis
    unfolding a b c
    by (simp add: sanity_in_china_p_def)
qed

text \<open>
  C7, amended. For a coordinate outside the bounding box and \<open>check_china\<close> true,
  \<^verbatim>\<open>wgs_bd\<close> skips the WGS-84 to GCJ-02 step only: it returns \<^verbatim>\<open>gcj_bd\<close> of its input,
  with one warning for the input. \<^verbatim>\<open>bd_wgs\<close> tests the intermediate GCJ-02 coordinate
  \<^verbatim>\<open>bd_gcj(bd)\<close>, not its input: when that coordinate is outside the bounding box it is
  what \<^verbatim>\<open>bd_wgs\<close> returns, with one warning for it, and when it is inside, the flag
  changes nothing.
\<close>

theorem composed_check_china:
  "(\<not> sanity_in_china_p p \<longrightarrow> wgs_bd p True = (fst (gcj_bd p False), [NonChinese p]))
   \<and> (\<not> sanity_in_china_p (fst (bd_gcj p False)) \<longrightarrow>
        bd_wgs p True = (fst (bd_gcj p False), [NonChinese (fst (bd_gcj p False))]))
   \<and> (sanity_in_china_p (fst (bd_gcj p False)) \<longrightarrow> bd_wgs p True = bd_wgs p False)"
  by (simp add: wgs_bd_def bd_wgs_def gcj_wgs_def wgs_gcj_inside wgs_gcj_outside coords_sub_self
      gcj_bd_def bd_gcj_def Let_def)

theorem composed_check_china_witness:
  "\<not> sanity_in_china_p (Coords 0 0)
   \<and> wgs_bd (Coords 0 0) True = (Coords 0.006 0.0065, [NonChinese (Coords 0 0)])
   \<and> \<not> sanity_in_china_p (fst (bd_gcj (Coords 0.006 0.0065) False))
   \<and> bd_wgs (Coords 0.006 0.0065) True = (Coords 0 0, [NonChinese (Coords 0 0)])
   \<and> sanity_in_china_p (fst (bd_gcj (Coords 30.006 100.0565) False))
   \<and> bd_wgs (Coords 30.006 100.0565) True = bd_wgs (Coords 30.006 100.0565) False"
  using composed_check_china [of "Coords 0 0"] composed_check_china [of "Coords 0.006 0.0065"]
    composed_check_china [of "Coords 30.006 100.0565"]
  unfolding gcj_bd_origin bd_gcj_offset bd_gcj_nice
  by (simp add: sanity_in_china_p_def)

subsection \<open>The arithmetic of Coords\<close>

lemma bit_length_0: "bit_length 0 = 0"
  by (simp add: bit_length.simps)

lemma bit_length_pos: "n \<noteq> 0 \<Longrightarrow> bit_length n = Suc (bit_length (n div 2))"
  by (subst bit_length.simps) simp

text \<open>
  \<^verbatim>\<open>fadd64\<close> is the rounding of the exact sum: it is the sum itself when the sum fits
  in 53 bits, it is never further from the sum than half a unit of its last place, its
  significand stays within \<open>2 ^ 53\<close>, and a tie is given the even significand.
\<close>

lemma round_even_nearest:
  assumes "0 \<le> n"
  shows "2 * \<bar>round_even n k * 2 ^ k - n\<bar> \<le> 2 ^ k"
proof -
  define q where "q = n div 2 ^ k"
  define r where "r = n mod 2 ^ k"
  have n: "n = q * 2 ^ k + r"
    unfolding q_def r_def by (rule div_mult_mod_eq [symmetric])
  have r: "0 \<le> r" "r < 2 ^ k"
    by (simp_all add: r_def)
  show ?thesis
  proof (cases "2 * r > 2 ^ k \<or> (2 * r = 2 ^ k \<and> odd q)")
    case True
    then have "round_even n k = q + 1"
      by (simp add: round_even_def Let_def q_def r_def)
    then have "round_even n k * 2 ^ k - n = 2 ^ k - r"
      by (simp add: n algebra_simps)
    then show ?thesis
      using True r by auto
  next
    case False
    then have "round_even n k = q"
      by (simp add: round_even_def Let_def q_def r_def)
    then have "round_even n k * 2 ^ k - n = - r"
      by (simp add: n)
    then show ?thesis
      using False r by auto
  qed
qed

lemma round_even_tie:
  "2 * (n mod 2 ^ k) = 2 ^ k \<Longrightarrow> even (round_even n k)"
  by (auto simp add: round_even_def Let_def)

lemma f64_val_sum:
  "f64_val a + f64_val b
     = of_int (fst a * 2 ^ nat (snd a - min (snd a) (snd b))
               + fst b * 2 ^ nat (snd b - min (snd a) (snd b))) * 2 powi (min (snd a) (snd b))"
proof -
  have shift: "(2::real) ^ nat (x - e) * 2 powi e = 2 powi x" if "e \<le> x" for x e :: int
  proof -
    have "(2::real) powi x = 2 powi (int (nat (x - e)) + e)"
      using that by simp
    also have "\<dots> = 2 powi int (nat (x - e)) * 2 powi e"
      by (rule power_int_add) simp
    also have "\<dots> = 2 ^ nat (x - e) * 2 powi e"
      by (simp only: power_int_of_nat)
    finally show ?thesis
      by (rule sym)
  qed
  show ?thesis
    using shift [of "min (snd a) (snd b)" "snd a"] shift [of "min (snd a) (snd b)" "snd b"]
    by (simp add: f64_val_def algebra_simps)
qed

lemma fadd64_half_ulp:
  fixes a b :: float64
  defines "e \<equiv> min (snd a) (snd b)"
  defines "s \<equiv> fst a * 2 ^ nat (snd a - e) + fst b * 2 ^ nat (snd b - e)"
  defines "k \<equiv> bit_length (nat \<bar>s\<bar>) - 53"
  shows "\<bar>f64_val (fadd64 a b) - (f64_val a + f64_val b)\<bar> \<le> 2 powi (e + int k) / 2"
proof -
  have res: "fadd64 a b = (sgn s * round_even \<bar>s\<bar> k, e + int k)"
    by (simp add: fadd64_def Let_def e_def s_def k_def)
  have sum: "f64_val a + f64_val b = of_int s * 2 powi e"
    unfolding s_def e_def by (rule f64_val_sum)
  have pw: "(2::real) powi (e + int k) = 2 powi e * 2 ^ k"
    by (subst power_int_add) simp_all
  have l: "f64_val (fadd64 a b) = of_int (sgn s) * (of_int (round_even \<bar>s\<bar> k) * 2 ^ k) * 2 powi e"
    by (simp add: res f64_val_def pw)
  have "real_of_int s = of_int (sgn s * \<bar>s\<bar>)"
    by (simp only: mult_sgn_abs)
  then have r: "f64_val a + f64_val b = of_int (sgn s) * of_int \<bar>s\<bar> * 2 powi e"
    by (simp only: sum of_int_mult)
  define D where "D = round_even \<bar>s\<bar> k * 2 ^ k - \<bar>s\<bar>"
  have pos: "0 < (2::real) powi e"
    by simp
  have "f64_val (fadd64 a b) - (f64_val a + f64_val b) = of_int (sgn s * D) * 2 powi e"
    unfolding l r D_def
    by (simp only: of_int_mult of_int_diff of_int_power of_int_numeral) (simp only: algebra_simps)
  then have "\<bar>f64_val (fadd64 a b) - (f64_val a + f64_val b)\<bar>
               = \<bar>real_of_int (sgn s * D)\<bar> * 2 powi e"
    by (simp only: abs_mult abs_of_pos [OF pos])
  also have "\<dots> \<le> real_of_int \<bar>D\<bar> * 2 powi e"
  proof (intro mult_right_mono)
    have "\<bar>sgn s * D\<bar> \<le> \<bar>D\<bar>"
      by (cases "s = 0") (simp_all add: abs_mult abs_sgn_eq)
    then show "\<bar>real_of_int (sgn s * D)\<bar> \<le> real_of_int \<bar>D\<bar>"
      by (simp only: of_int_abs [symmetric] of_int_le_iff)
  qed simp
  also have "\<dots> \<le> (2 ^ k / 2) * 2 powi e"
  proof (intro mult_right_mono)
    have "2 * \<bar>D\<bar> \<le> 2 ^ k"
      unfolding D_def by (rule round_even_nearest) simp
    then have "real_of_int (2 * \<bar>D\<bar>) \<le> real_of_int (2 ^ k)"
      by (simp only: of_int_le_iff)
    then show "real_of_int \<bar>D\<bar> \<le> 2 ^ k / 2"
      by simp
  qed simp
  finally show ?thesis
    by (simp add: pw mult.commute)
qed

lemma bit_length_bound: "n < 2 ^ bit_length n"
proof (induction n rule: bit_length.induct)
  case (1 n)
  show ?case
  proof (cases "n = 0")
    case True
    then show ?thesis
      by (simp add: bit_length.simps)
  next
    case False
    then have "n div 2 < 2 ^ bit_length (n div 2)"
      by (rule "1.IH")
    then have "n < 2 * 2 ^ bit_length (n div 2)"
      by linarith
    then show ?thesis
      using False by (subst bit_length.simps) simp
  qed
qed

lemma round_even_significand:
  assumes "0 \<le> n"
  shows "round_even n (bit_length (nat n) - 53) \<le> 2 ^ 53"
proof -
  define k where "k = bit_length (nat n) - 53"
  have "nat n < 2 ^ bit_length (nat n)"
    by (rule bit_length_bound)
  also have "(2::nat) ^ bit_length (nat n) \<le> 2 ^ (53 + k)"
    unfolding k_def by (intro power_increasing) simp_all
  finally have "n < 2 ^ 53 * 2 ^ k"
    using assms by (simp add: power_add nat_less_iff)
  moreover have "n div 2 ^ k * 2 ^ k + n mod 2 ^ k = n"
    by (rule div_mult_mod_eq)
  moreover have "0 \<le> n mod 2 ^ k"
    by simp
  ultimately have "n div 2 ^ k * 2 ^ k < 2 ^ 53 * 2 ^ k"
    by linarith
  then have "n div 2 ^ k < 2 ^ 53"
    by (rule mult_right_less_imp_less) simp
  then show ?thesis
    unfolding k_def [symmetric] round_even_def Let_def by simp
qed

lemma fadd64_exact:
  assumes "bit_length (nat \<bar>fst a * 2 ^ nat (snd a - min (snd a) (snd b))
                              + fst b * 2 ^ nat (snd b - min (snd a) (snd b))\<bar>) \<le> 53"
  shows "f64_val (fadd64 a b) = f64_val a + f64_val b"
proof -
  define e where "e = min (snd a) (snd b)"
  define s where "s = fst a * 2 ^ nat (snd a - e) + fst b * 2 ^ nat (snd b - e)"
  have "round_even n 0 = n" for n
    by (simp add: round_even_def)
  then have "fadd64 a b = (s, e)"
    using assms by (simp add: fadd64_def Let_def mult_sgn_abs e_def s_def)
  then have "f64_val (fadd64 a b) = of_int s * 2 powi e"
    by (simp add: f64_val_def)
  then show ?thesis
    unfolding s_def e_def by (simp only: f64_val_sum)
qed

lemma fadd64_commute: "fadd64 a b = fadd64 b a"
proof -
  have e: "min (snd a) (snd b) = min (snd b) (snd a)"
    by (rule min.commute)
  have s: "fst a * 2 ^ nat (snd a - e) + fst b * 2 ^ nat (snd b - e)
             = fst b * 2 ^ nat (snd b - e) + fst a * 2 ^ nat (snd a - e)" for e
    by (rule add.commute)
  show ?thesis
    unfolding fadd64_def e s by (rule refl)
qed

text \<open>
  In real arithmetic the argument of the square root in \<^verbatim>\<open>distance\<close> lies in
  \<open>[0, 1]\<close>, so neither \<^verbatim>\<open>math.sqrt\<close> nor \<^verbatim>\<open>math.asin\<close> raises.
\<close>

lemma hav_cos: "hav t = (1 - cos t) / 2"
  using cos_double_sin [of "t / 2"] by (simp add: hav_def)

lemma hav_range: "0 \<le> hav t" "hav t \<le> 1"
  using cos_ge_minus_one [of t] cos_le_one [of t] by (simp_all add: hav_cos)

lemma haversine_argument_range:
  fixes p1 p2 dl :: real
  defines "h \<equiv> hav (p1 - p2) + cos p1 * cos p2 * hav dl"
  shows "0 \<le> h" and "h \<le> 1"
proof -
  define A where "A = hav (p1 - p2)"
  define B where "B = hav dl"
  define C where "C = cos p1 * cos p2"
  have A: "0 \<le> A" "A \<le> 1" and B: "0 \<le> B" "B \<le> 1"
    by (simp_all add: A_def B_def hav_range)
  have "cos (p1 - p2) + cos (p1 + p2) = 2 * C"
    by (simp add: cos_diff cos_add C_def)
  moreover have "cos (p1 - p2) = 1 - 2 * A"
    by (simp add: A_def hav_cos field_simps)
  ultimately have C2: "2 * C = 1 - 2 * A + cos (p1 + p2)"
    by simp
  have lo: "- A \<le> C" and hi: "C \<le> 1 - A"
    using C2 cos_ge_minus_one [of "p1 + p2"] cos_le_one [of "p1 + p2"] by linarith+
  have h: "h = A + C * B"
    by (simp add: h_def A_def B_def C_def)
  have "- A * B \<le> C * B"
    using lo B(1) by (intro mult_right_mono) simp_all
  moreover have "A * B \<le> A * 1"
    using A(1) B(2) by (intro mult_left_mono)
  ultimately show "0 \<le> h"
    unfolding h by simp
  have "C * B \<le> (1 - A) * B"
    using hi B(1) by (intro mult_right_mono)
  moreover have "(1 - A) * B \<le> (1 - A) * 1"
    using A(2) B(2) by (intro mult_left_mono) simp_all
  ultimately show "h \<le> 1"
    unfolding h by simp
qed

lemma radians_diff: "radians (u - v) = radians u - radians v"
  unfolding radians_def by (rule left_diff_distrib)

lemma distance_total:
  "distance a b =
     Inr (2 * EARTH_R
          * arcsin (sqrt (hav (radians (lat a - lat b))
                          + cos (radians (lat a)) * cos (radians (lat b))
                            * hav (radians (lon a - lon b)))))"
proof -
  define h where "h = hav (radians (lat a) - radians (lat b))
                      + cos (radians (lat a)) * cos (radians (lat b)) * hav (radians (lon a - lon b))"
  have h: "0 \<le> h" "h \<le> 1"
    unfolding h_def by (rule haversine_argument_range)+
  then have "0 \<le> sqrt h" and le: "sqrt h \<le> 1"
    by simp_all
  then have "\<not> sqrt h < - 1"
    by linarith
  with le show ?thesis
    using h
    by (simp add: distance_def Let_def minus_coords_def math_sqrt_def math_asin_def
        radians_diff [of "lat a" "lat b"] h_def [symmetric])
qed

lemma hav_radians_diff: "hav (radians (u - v)) = hav (radians (v - u))"
proof -
  have "u - v = - (v - u)"
    by simp
  then have "radians (u - v) / 2 = - (radians (v - u) / 2)"
    unfolding radians_def by (simp only: mult_minus_left minus_divide_left)
  then show ?thesis
    by (simp add: hav_def)
qed

lemma distance_commute: "distance a b = distance b a"
proof -
  have "hav (radians (lat (a - b))) = hav (radians (lat (b - a)))"
    "hav (radians (lon (a - b))) = hav (radians (lon (b - a)))"
    by (simp_all add: minus_coords_def hav_radians_diff)
  moreover have "cos (radians (lat a)) * cos (radians (lat b)) = cos (radians (lat b)) * cos (radians (lat a))"
    by (rule mult.commute)
  ultimately show ?thesis
    unfolding distance_def Let_def by (simp only:)
qed

text \<open>
  The claim C9 as it is written fails for the associativity of \<^verbatim>\<open>+\<close>: the components
  are binary64 numbers, and there \<open>(1 + 2\<^sup>-\<^sup>5\<^sup>3) + 2\<^sup>-\<^sup>5\<^sup>3\<close> rounds to \<open>1\<close> twice, while
  \<open>1 + (2\<^sup>-\<^sup>5\<^sup>3 + 2\<^sup>-\<^sup>5\<^sup>3)\<close> is \<open>1 + 2\<^sup>-\<^sup>5\<^sup>2\<close> exactly. For the coordinates
  \<open>a = (1.0, 0.0)\<close> and \<open>b = c = (2\<^sup>-\<^sup>5\<^sup>3, 0.0)\<close>, \<^verbatim>\<open>(a + b) + c == a + (b + c)\<close> is false.
\<close>

theorem coords_add_assoc_binary64_counterexample:
  "f64_val (1, 0) = 1 \<and> f64_val (1, - 53) = 1 / 2 ^ 53 \<and> f64_val (0, 0) = 0
   \<and> \<not> eq64
         (add64 (add64 (Coords64 (1, 0) (0, 0)) (Coords64 (1, - 53) (0, 0)))
                (Coords64 (1, - 53) (0, 0)))
         (add64 (Coords64 (1, 0) (0, 0))
                (add64 (Coords64 (1, - 53) (0, 0)) (Coords64 (1, - 53) (0, 0))))"
  by (simp add: eq64_def add64_def fadd64_def round_even_def f64_val_def Let_def
      bit_length_0 bit_length_pos)

text \<open>
  C9, amended. Addition and subtraction of \<^verbatim>\<open>Coords\<close> are component-wise and addition is
  commutative, on binary64 components too; addition is associative when the components are
  added exactly, as real numbers. The magnitude is never negative, and the haversine
  distance (its value or its error) is the same in both directions.
\<close>

theorem coords_vector_arithmetic:
  "a + b = Coords (lat a + lat b) (lon a + lon b)
   \<and> a - b = Coords (lat a - lat b) (lon a - lon b)
   \<and> a + b = b + a
   \<and> (a + b) + c = a + (b + c)
   \<and> 0 \<le> abs_coords a
   \<and> distance a b = distance b a
   \<and> add64 p q = add64 q p"
proof -
  have "a + b = b + a"
    by (simp add: plus_coords_def add.commute)
  moreover have "(a + b) + c = a + (b + c)"
    by (simp add: plus_coords_def add.assoc)
  moreover have "add64 p q = add64 q p"
    unfolding add64_def by (simp only: fadd64_commute [of "lat64 p"] fadd64_commute [of "lon64 p"])
  ultimately show ?thesis
    using distance_commute [of a b]
    by (simp add: plus_coords_def minus_coords_def abs_coords_def)
qed

end
